theory Spec2Isabelle
  imports Main "HOL-Library.Sublist"
begin

section \<open>The Kalman filter factory header as a function of its three macros\<close>

text \<open>
  \<^verbatim>\<open>Kalman/kalman_factory_filter.h\<close> is a header that is included once per filter
  instance, after the three macros \<^verbatim>\<open>KALMAN_NAME\<close>, \<^verbatim>\<open>KALMAN_NUM_STATES\<close> and
  \<^verbatim>\<open>KALMAN_NUM_INPUTS\<close> have been defined. One inclusion is modelled as a function from
  the macro environment to either what stops the translation inside the header or the
  declarations the header expands to. The source's macro names are kept; the leading
  double underscore of \<^verbatim>\<open>__CONCAT\<close>, \<^verbatim>\<open>__KALMAN_A_ROWS\<close>, \<^verbatim>\<open>__KALMAN_BUFFER_A\<close> ... is
  dropped, since a HOL name cannot start with an underscore.

  The header leaves three things to the C implementation, and they are fixed here as on
  the usual 64-bit targets: \<^verbatim>\<open>intmax_t\<close> and \<^verbatim>\<open>uintmax_t\<close> have 64 bits, \<^verbatim>\<open>int\<close> has 32
  bits, \<^verbatim>\<open>long\<close> and \<^verbatim>\<open>long long\<close> have 64 bits; an integer constant too large for every
  type and a signed product that overflows are reduced modulo the width of their type,
  which is how these compilers go on after their warning.
\<close>

subsection \<open>Macro environment\<close>

text \<open>
  The replacement of a dimension macro is a decimal integer constant, with a minus sign
  in front when the number is negative (\<open>IntTok\<close>), an identifier that is not itself a
  macro (\<open>IdentTok\<close>), or anything else, such as a floating constant or a string literal
  (\<open>OtherTok\<close>, with its spelling).
\<close>

datatype pp_token = IntTok int | IdentTok string | OtherTok string

subsection \<open>Arithmetic of \<^verbatim>\<open>#if\<close> and \<^verbatim>\<open>#elif\<close>\<close>

text \<open>
  In a condition every integer constant has the type \<^verbatim>\<open>intmax_t\<close>, or \<^verbatim>\<open>uintmax_t\<close> when
  it does not fit. The minus sign is an operator: on an unsigned operand it wraps and
  the result stays unsigned. An identifier that is left after macro expansion is
  replaced by \<open>0\<close>. Any other token makes the condition ill-formed.
\<close>

datatype pp_num = PPSigned int | PPUnsigned int

definition pp_constant :: "int \<Rightarrow> pp_num" where
  "pp_constant k = (if k < 2 ^ 63 then PPSigned k else PPUnsigned (k mod 2 ^ 64))"

fun pp_minus :: "pp_num \<Rightarrow> pp_num" where
  "pp_minus (PPSigned v) = PPSigned (- v)"
| "pp_minus (PPUnsigned v) = PPUnsigned ((- v) mod 2 ^ 64)"

fun pp_eval :: "pp_token \<Rightarrow> pp_num option" where
  "pp_eval (IntTok n) =
     Some (if 0 \<le> n then pp_constant n else pp_minus (pp_constant (- n)))"
| "pp_eval (IdentTok s) = Some (PPSigned 0)"
| "pp_eval (OtherTok s) = None"

text \<open>
  The number a condition operand stands for. The header compares its operands with the
  constant \<open>0\<close> only; for an unsigned operand the \<open>0\<close> is converted to unsigned and stays
  \<open>0\<close>, so each of the three comparisons is the comparison of this number with \<open>0\<close>.
\<close>

fun pp_number :: "pp_num \<Rightarrow> int" where
  "pp_number (PPSigned v) = v"
| "pp_number (PPUnsigned v) = v"

definition pp_value :: "pp_token \<Rightarrow> int option" where
  "pp_value t = map_option pp_number (pp_eval t)"

subsection \<open>Arithmetic of an array bound\<close>

text \<open>
  In a declaration a decimal constant has the first of the types \<^verbatim>\<open>int\<close>, \<^verbatim>\<open>long\<close> in
  which it fits, and is taken as \<^verbatim>\<open>unsigned long\<close> beyond. A product is computed in the
  common type of its factors and reduced to it. An identifier or any other token is no
  integer constant of the header.
\<close>

datatype c_type = CInt | CLong | CULong

fun c_wrap :: "c_type \<Rightarrow> int \<Rightarrow> int" where
  "c_wrap CInt v = (v + 2 ^ 31) mod 2 ^ 32 - 2 ^ 31"
| "c_wrap CLong v = (v + 2 ^ 63) mod 2 ^ 64 - 2 ^ 63"
| "c_wrap CULong v = v mod 2 ^ 64"

definition c_constant :: "int \<Rightarrow> c_type \<times> int" where
  "c_constant k =
     (if k < 2 ^ 31 then (CInt, k)
      else if k < 2 ^ 63 then (CLong, k)
      else (CULong, k mod 2 ^ 64))"

fun c_minus :: "c_type \<times> int \<Rightarrow> c_type \<times> int" where
  "c_minus (t, v) = (t, c_wrap t (- v))"

fun c_common :: "c_type \<Rightarrow> c_type \<Rightarrow> c_type" where
  "c_common CInt t = t"
| "c_common t CInt = t"
| "c_common CLong CLong = CLong"
| "c_common _ _ = CULong"

fun c_times :: "c_type \<times> int \<Rightarrow> c_type \<times> int \<Rightarrow> c_type \<times> int" where
  "c_times (t1, v1) (t2, v2) = (c_common t1 t2, c_wrap (c_common t1 t2) (v1 * v2))"

fun c_value :: "pp_token \<Rightarrow> (c_type \<times> int) option" where
  "c_value (IntTok n) =
     Some (if 0 \<le> n then c_constant n else c_minus (c_constant (- n)))"
| "c_value (IdentTok s) = None"
| "c_value (OtherTok s) = None"

text \<open>A macro that is not defined is \<open>None\<close>.\<close>

record macros =
  KALMAN_NAME :: "string option"
  KALMAN_NUM_STATES :: "pp_token option"
  KALMAN_NUM_INPUTS :: "pp_token option"

subsection \<open>Check for inputs (lines 64-78)\<close>

datatype error =
    NameUndefined
  | NumStatesUndefined
  | NumStatesNotPositive
  | NumInputsUndefined
  | NumInputsNegative

text \<open>
  The translation stops inside the header at one of its \<^verbatim>\<open>#error\<close> directives, or at
  a condition that is ill-formed, with a diagnostic of the compiler's own.
\<close>

datatype failure = ErrorDirective error | IllFormedCondition

text \<open>The text of each \<^verbatim>\<open>#error\<close> directive.\<close>

fun error_message :: "error \<Rightarrow> string" where
  "error_message NameUndefined =
     ''KALMAN_NAME needs to be defined prior to inclusion of this file.''"
| "error_message NumStatesUndefined =
     ''KALMAN_NUM_STATES needs to be defined prior to inclusion of this file.''"
| "error_message NumStatesNotPositive =
     ''KALMAN_NUM_STATES must be a positive integer''"
| "error_message NumInputsUndefined =
     ''KALMAN_NUM_INPUTS needs to be defined prior to inclusion of this file.''"
| "error_message NumInputsNegative =
     ''KALMAN_NUM_INPUTS must be a positive integer or zero if no inputs are used''"

definition check_name :: "macros \<Rightarrow> failure + string" where
  "check_name m =
     (case KALMAN_NAME m of
        None \<Rightarrow> Inl (ErrorDirective NameUndefined)
      | Some nm \<Rightarrow> Inr nm)"

definition check_num_states :: "macros \<Rightarrow> failure + pp_token" where
  "check_num_states m =
     (case KALMAN_NUM_STATES m of
        None \<Rightarrow> Inl (ErrorDirective NumStatesUndefined)
      | Some ns \<Rightarrow>
          (case pp_value ns of
             None \<Rightarrow> Inl IllFormedCondition
           | Some v \<Rightarrow>
               if v \<le> 0 then Inl (ErrorDirective NumStatesNotPositive) else Inr ns))"

definition check_num_inputs :: "macros \<Rightarrow> failure + pp_token" where
  "check_num_inputs m =
     (case KALMAN_NUM_INPUTS m of
        None \<Rightarrow> Inl (ErrorDirective NumInputsUndefined)
      | Some ni \<Rightarrow>
          (case pp_value ni of
             None \<Rightarrow> Inl IllFormedCondition
           | Some v \<Rightarrow>
               if v < 0 then Inl (ErrorDirective NumInputsNegative) else Inr ni))"

text \<open>The condition of \<^verbatim>\<open>#if KALMAN_NUM_INPUTS > 0\<close> (line 148).\<close>

definition has_inputs :: "pp_token \<Rightarrow> bool" where
  "has_inputs ni = (case pp_value ni of None \<Rightarrow> False | Some v \<Rightarrow> 0 < v)"

subsection \<open>Prepare dimensions (lines 84-100)\<close>

datatype dim_macro =
    KALMAN_A_ROWS | KALMAN_A_COLS
  | KALMAN_P_ROWS | KALMAN_P_COLS
  | KALMAN_x_ROWS | KALMAN_x_COLS
  | KALMAN_B_ROWS | KALMAN_B_COLS
  | KALMAN_u_ROWS | KALMAN_u_COLS
  | KALMAN_Q_ROWS | KALMAN_Q_COLS

text \<open>The replacement of each dimension macro, given the two dimension parameters.\<close>

fun dim_token :: "pp_token \<Rightarrow> pp_token \<Rightarrow> dim_macro \<Rightarrow> pp_token" where
  "dim_token ns ni KALMAN_A_ROWS = ns"
| "dim_token ns ni KALMAN_A_COLS = ns"
| "dim_token ns ni KALMAN_P_ROWS = ns"
| "dim_token ns ni KALMAN_P_COLS = ns"
| "dim_token ns ni KALMAN_x_ROWS = ns"
| "dim_token ns ni KALMAN_x_COLS = IntTok 1"
| "dim_token ns ni KALMAN_B_ROWS = ns"
| "dim_token ns ni KALMAN_B_COLS = ni"
| "dim_token ns ni KALMAN_u_ROWS = ni"
| "dim_token ns ni KALMAN_u_COLS = IntTok 1"
| "dim_token ns ni KALMAN_Q_ROWS = ni"
| "dim_token ns ni KALMAN_Q_COLS = ni"

subsection \<open>Name macros (lines 113-125)\<close>

text \<open>
  Token pasting is concatenation of the spellings. The header's own comment gives the
  results for the name \<^verbatim>\<open>acceleration\<close>: \<^verbatim>\<open>kalman_filter_acceleration\<close>,
  \<^verbatim>\<open>kalman_filter_acceleration_A_buffer\<close> and \<^verbatim>\<open>kalman_filter_acceleration_init\<close>.
\<close>

definition CONCAT :: "string \<Rightarrow> string \<Rightarrow> string" where
  "CONCAT x y = x @ y"

definition KALMAN_FILTER_BASENAME_HELPER :: "string \<Rightarrow> string" where
  "KALMAN_FILTER_BASENAME_HELPER name = CONCAT ''kalman_filter_'' name"

definition KALMAN_FILTER_BASENAME :: "string \<Rightarrow> string" where
  "KALMAN_FILTER_BASENAME nm = KALMAN_FILTER_BASENAME_HELPER nm"

definition KALMAN_BASENAME_HELPER :: "string \<Rightarrow> string" where
  "KALMAN_BASENAME_HELPER basename = CONCAT basename ''_''"

definition KALMAN_BUFFER_NAME :: "string \<Rightarrow> string \<Rightarrow> string" where
  "KALMAN_BUFFER_NAME nm element =
     KALMAN_BASENAME_HELPER (KALMAN_FILTER_BASENAME nm) @ element @ ''_buffer''"

definition KALMAN_FUNCTION_NAME :: "string \<Rightarrow> string \<Rightarrow> string" where
  "KALMAN_FUNCTION_NAME nm name =
     KALMAN_BASENAME_HELPER (KALMAN_FILTER_BASENAME nm) @ name"

definition KALMAN_STRUCT_NAME :: "string \<Rightarrow> string" where
  "KALMAN_STRUCT_NAME nm = KALMAN_FILTER_BASENAME nm"

subsection \<open>Construct Kalman filter (lines 135-191)\<close>

text \<open>
  A declaration \<^verbatim>\<open>static matrix_data_t name[rows * cols];\<close> with the two factors of its
  bound after macro expansion.
\<close>

record buffer_decl =
  buf_name :: string
  buf_rows :: pp_token
  buf_cols :: pp_token

text \<open>
  The value of the bound: the product of the two factors as the compiler computes it.
\<close>

definition elem_count :: "buffer_decl \<Rightarrow> int option" where
  "elem_count b =
     (case c_value (buf_rows b) of
        None \<Rightarrow> None
      | Some r \<Rightarrow> (case c_value (buf_cols b) of
                    None \<Rightarrow> None
                  | Some c \<Rightarrow> Some (snd (c_times r c))))"

definition declare_buffer ::
  "pp_token \<Rightarrow> pp_token \<Rightarrow> string \<Rightarrow> dim_macro \<Rightarrow> dim_macro \<Rightarrow> buffer_decl" where
  "declare_buffer ns ni name rows cols =
     \<lparr>buf_name = name, buf_rows = dim_token ns ni rows, buf_cols = dim_token ns ni cols\<rparr>"

text \<open>
  What a \<^verbatim>\<open>__KALMAN_BUFFER_\<close> macro expands to: the name of a declared array, or
  \<^verbatim>\<open>((matrix_data_t* )0)\<close>.
\<close>

datatype buffer_ref = Storage string | NullPtr

definition KALMAN_BUFFER_A :: "string \<Rightarrow> buffer_ref" where
  "KALMAN_BUFFER_A nm = Storage (KALMAN_BUFFER_NAME nm ''A'')"

definition KALMAN_BUFFER_P :: "string \<Rightarrow> buffer_ref" where
  "KALMAN_BUFFER_P nm = Storage (KALMAN_BUFFER_NAME nm ''P'')"

definition KALMAN_BUFFER_x :: "string \<Rightarrow> buffer_ref" where
  "KALMAN_BUFFER_x nm = Storage (KALMAN_BUFFER_NAME nm ''x'')"

definition KALMAN_BUFFER_B :: "string \<Rightarrow> pp_token \<Rightarrow> buffer_ref" where
  "KALMAN_BUFFER_B nm ni =
     (if has_inputs ni then Storage (KALMAN_BUFFER_NAME nm ''B'') else NullPtr)"

definition KALMAN_BUFFER_Q :: "string \<Rightarrow> pp_token \<Rightarrow> buffer_ref" where
  "KALMAN_BUFFER_Q nm ni =
     (if has_inputs ni then Storage (KALMAN_BUFFER_NAME nm ''Q'') else NullPtr)"

definition KALMAN_BUFFER_u :: "string \<Rightarrow> pp_token \<Rightarrow> buffer_ref" where
  "KALMAN_BUFFER_u nm ni =
     (if has_inputs ni then Storage (KALMAN_BUFFER_NAME nm ''u'') else NullPtr)"

text \<open>The array declarations, in the order of the source (lines 140-161).\<close>

definition declare_buffers :: "string \<Rightarrow> pp_token \<Rightarrow> pp_token \<Rightarrow> buffer_decl list" where
  "declare_buffers nm ns ni =
     [declare_buffer ns ni (KALMAN_BUFFER_NAME nm ''A'') KALMAN_A_ROWS KALMAN_A_COLS,
      declare_buffer ns ni (KALMAN_BUFFER_NAME nm ''P'') KALMAN_P_ROWS KALMAN_P_COLS,
      declare_buffer ns ni (KALMAN_BUFFER_NAME nm ''x'') KALMAN_x_ROWS KALMAN_x_COLS]
     @ (if has_inputs ni then
          [declare_buffer ns ni (KALMAN_BUFFER_NAME nm ''B'') KALMAN_B_ROWS KALMAN_B_COLS,
           declare_buffer ns ni (KALMAN_BUFFER_NAME nm ''Q'') KALMAN_Q_ROWS KALMAN_Q_COLS,
           declare_buffer ns ni (KALMAN_BUFFER_NAME nm ''u'') KALMAN_x_ROWS KALMAN_u_COLS]
        else [])"

text \<open>The generated function: its name, its parameter list and its body.\<close>

datatype c_arg = AddrOf string | Tok pp_token | Buf buffer_ref

datatype c_stmt = Call string "c_arg list"

record fn_decl =
  fn_name :: string
  fn_params :: "string list"
  fn_body :: "c_stmt list"

definition init_function :: "string \<Rightarrow> pp_token \<Rightarrow> pp_token \<Rightarrow> fn_decl" where
  "init_function nm ns ni =
     \<lparr>fn_name = KALMAN_FUNCTION_NAME nm ''init'',
      fn_params = [],
      fn_body =
        [Call ''kalman_filter_initialize''
           [AddrOf (KALMAN_STRUCT_NAME nm), Tok ns, Tok ni,
            Buf (KALMAN_BUFFER_A nm), Buf (KALMAN_BUFFER_x nm),
            Buf (KALMAN_BUFFER_B nm ni), Buf (KALMAN_BUFFER_u nm ni),
            Buf (KALMAN_BUFFER_P nm), Buf (KALMAN_BUFFER_Q nm ni)]]\<rparr>"

text \<open>Everything one inclusion of the header declares.\<close>

record filter_instance =
  buffers :: "buffer_decl list"
  struct_decl :: string
  init_fn :: fn_decl

definition construct :: "string \<Rightarrow> pp_token \<Rightarrow> pp_token \<Rightarrow> filter_instance" where
  "construct nm ns ni =
     \<lparr>buffers = declare_buffers nm ns ni,
      struct_decl = KALMAN_STRUCT_NAME nm,
      init_fn = init_function nm ns ni\<rparr>"

text \<open>
  One inclusion of the header: the three checks in the order of the source, the first
  failure stopping the translation, then the declarations. \<open>Inr\<close> is what the header
  hands to the compiler proper; the types \<^verbatim>\<open>matrix_data_t\<close> and \<^verbatim>\<open>kalman_t\<close> and the
  function \<^verbatim>\<open>kalman_filter_initialize\<close> come from other headers.
\<close>

definition generate :: "macros \<Rightarrow> failure + filter_instance" where
  "generate m =
     (case check_name m of
        Inl e \<Rightarrow> Inl e
      | Inr nm \<Rightarrow>
          (case check_num_states m of
             Inl e \<Rightarrow> Inl e
           | Inr ns \<Rightarrow>
               (case check_num_inputs m of
                  Inl e \<Rightarrow> Inl e
                | Inr ni \<Rightarrow> Inr (construct nm ns ni))))"

text \<open>The identifiers an instance declares, and the array with a given name.\<close>

definition symbols :: "filter_instance \<Rightarrow> string list" where
  "symbols out = map buf_name (buffers out) @ [struct_decl out, fn_name (init_fn out)]"

definition buffer_named :: "filter_instance \<Rightarrow> string \<Rightarrow> buffer_decl option" where
  "buffer_named out name = find (\<lambda>b. buf_name b = name) (buffers out)"

definition count_of :: "filter_instance \<Rightarrow> string \<Rightarrow> int option" where
  "count_of out name =
     (case buffer_named out name of None \<Rightarrow> None | Some b \<Rightarrow> elem_count b)"

text \<open>The configuration with all three macros defined as integers.\<close>

definition config :: "string \<Rightarrow> int \<Rightarrow> int \<Rightarrow> macros" where
  "config nm ns ni =
     \<lparr>KALMAN_NAME = Some nm, KALMAN_NUM_STATES = Some (IntTok ns),
      KALMAN_NUM_INPUTS = Some (IntTok ni)\<rparr>"

text \<open>
  The identifiers a translation leaves behind: those of the instance when the header
  was accepted, none when it stopped.
\<close>

definition declared :: "failure + filter_instance \<Rightarrow> string list" where
  "declared r = (case r of Inl e \<Rightarrow> [] | Inr out \<Rightarrow> symbols out)"

text \<open>
  The arrays a call passes, in the order of its arguments.
\<close>

fun storage_of :: "c_arg \<Rightarrow> string list" where
  "storage_of (Buf (Storage s)) = [s]"
| "storage_of _ = []"

fun passed_storage :: "c_stmt \<Rightarrow> string list" where
  "passed_storage (Call f args) = concat (map storage_of args)"

text \<open>
  What a dimension token denotes as an argument of the call in line 190, where it is
  an expression of C: a constant denotes its number, an identifier what the including
  file declares it to be (\<open>scope\<close>), and nothing when the file does not declare it.
\<close>

fun denotes :: "(string \<Rightarrow> int option) \<Rightarrow> pp_token \<Rightarrow> int option" where
  "denotes scope (IntTok n) = map_option snd (c_value (IntTok n))"
| "denotes scope (IdentTok s) = scope s"
| "denotes scope (OtherTok s) = None"

subsection \<open>The naming scheme as the specification words it\<close>

text \<open>
  The specification describes every identifier as prefix, name, separator and tag, in
  this order. \<open>spec_identifier\<close> follows these words, with the prefix and the separator
  that \<^verbatim>\<open>KALMAN_FILTER_BASENAME_HELPER\<close> and \<^verbatim>\<open>KALMAN_BASENAME_HELPER\<close> paste.
  \<open>tag_suffixes\<close> lists what the name macros append to the base name of an instance.
\<close>

definition name_prefix :: string where
  "name_prefix = ''kalman_filter_''"

definition name_separator :: string where
  "name_separator = ''_''"

definition spec_identifier :: "string \<Rightarrow> string \<Rightarrow> string" where
  "spec_identifier nm tag = name_prefix @ nm @ name_separator @ tag"

definition tag_suffixes :: "string list" where
  "tag_suffixes =
     [''_A_buffer'', ''_P_buffer'', ''_x_buffer'', ''_B_buffer'', ''_Q_buffer'', ''_u_buffer'',
      ''_init'']"

text \<open>The names that extend a given name by one of these tags.\<close>

definition extended_names :: "string \<Rightarrow> string list" where
  "extended_names nm = map (\<lambda>s. nm @ s) tag_suffixes"

section \<open>Basic facts\<close>

lemmas name_defs = CONCAT_def KALMAN_FILTER_BASENAME_HELPER_def KALMAN_FILTER_BASENAME_def
  KALMAN_BASENAME_HELPER_def KALMAN_BUFFER_NAME_def KALMAN_FUNCTION_NAME_def
  KALMAN_STRUCT_NAME_def

lemmas check_defs = check_name_def check_num_states_def check_num_inputs_def

lemmas buffer_defs = KALMAN_BUFFER_A_def KALMAN_BUFFER_P_def KALMAN_BUFFER_x_def
  KALMAN_BUFFER_B_def KALMAN_BUFFER_Q_def KALMAN_BUFFER_u_def

text \<open>What a condition makes of each kind of token.\<close>

lemma pp_value_in_range:
  assumes "- (2 ^ 63) < n" "n < 2 ^ 63"
  shows "pp_value (IntTok n) = Some n"
  using assms by (simp add: pp_value_def pp_constant_def)

lemma pp_value_nonneg:
  assumes "0 \<le> n"
  shows "pp_value (IntTok n) = Some (n mod 2 ^ 64)"
  using assms by (simp add: pp_value_def pp_constant_def)

lemma pp_value_IdentTok: "pp_value (IdentTok s) = Some 0"
  by (simp add: pp_value_def)

lemma pp_value_OtherTok: "pp_value (OtherTok s) = None"
  by (simp add: pp_value_def)

lemma has_inputs_nonneg:
  assumes "0 \<le> n"
  shows "has_inputs (IntTok n) \<longleftrightarrow> n mod 2 ^ 64 \<noteq> 0"
proof -
  have "0 \<le> n mod 2 ^ 64" by simp
  then show ?thesis
    using assms by (auto simp: has_inputs_def pp_value_nonneg)
qed

text \<open>An accepted header had all three macros defined, with dimensions that pass.\<close>

lemma generate_Inr:
  assumes "generate m = Inr out"
  obtains nm ns ni v w where "KALMAN_NAME m = Some nm" "KALMAN_NUM_STATES m = Some ns"
    "KALMAN_NUM_INPUTS m = Some ni" "pp_value ns = Some v" "0 < v"
    "pp_value ni = Some w" "0 \<le> w" "out = construct nm ns ni"
  using assms
  by (auto simp: generate_def check_defs split: option.splits if_splits)

lemma generate_ok:
  assumes "KALMAN_NAME m = Some nm" "KALMAN_NUM_STATES m = Some ns"
    "KALMAN_NUM_INPUTS m = Some ni" "pp_value ns = Some v" "0 < v"
    "pp_value ni = Some w" "0 \<le> w"
  shows "generate m = Inr (construct nm ns ni)"
  using assms by (simp add: generate_def check_defs)

lemma generate_config:
  assumes "1 \<le> ns" "ns < 2 ^ 64" "0 \<le> ni"
  shows "generate (config nm ns ni) = Inr (construct nm (IntTok ns) (IntTok ni))"
proof -
  from assms(1,2) have s: "pp_value (IntTok ns) = Some ns" and pos: "0 < ns"
    by (simp_all add: pp_value_nonneg)
  from assms(3) have i: "pp_value (IntTok ni) = Some (ni mod 2 ^ 64)"
    by (rule pp_value_nonneg)
  have nonneg: "0 \<le> ni mod 2 ^ 64" by simp
  have "KALMAN_NAME (config nm ns ni) = Some nm"
    "KALMAN_NUM_STATES (config nm ns ni) = Some (IntTok ns)"
    "KALMAN_NUM_INPUTS (config nm ns ni) = Some (IntTok ni)"
    by (simp_all add: config_def)
  then show ?thesis using s pos i nonneg by (rule generate_ok)
qed

lemma symbols_construct:
  "symbols (construct nm ns ni) =
     [KALMAN_BUFFER_NAME nm ''A'', KALMAN_BUFFER_NAME nm ''P'', KALMAN_BUFFER_NAME nm ''x'']
     @ (if has_inputs ni
        then [KALMAN_BUFFER_NAME nm ''B'', KALMAN_BUFFER_NAME nm ''Q'',
              KALMAN_BUFFER_NAME nm ''u'']
        else [])
     @ [KALMAN_STRUCT_NAME nm, KALMAN_FUNCTION_NAME nm ''init'']"
  by (simp add: symbols_def construct_def declare_buffers_def declare_buffer_def
      init_function_def)


section \<open>Buffer sizes\<close>

text \<open>
  C1. The specification gives every buffer rows times columns elements of its own
  shape, so that \<^verbatim>\<open>imu\<close> with four states and two inputs has a control vector \<open>u\<close> of
  two elements. The declaration of \<open>u\<close> (line 161) multiplies \<^verbatim>\<open>__KALMAN_x_ROWS\<close>, not
  \<^verbatim>\<open>__KALMAN_u_ROWS\<close>, with \<^verbatim>\<open>__KALMAN_u_COLS\<close>: for this instance the header declares
  \<open>u\<close> with four elements. The other five buffers have the sizes of the table.
\<close>

theorem u_buffer_count_imu:
  "generate (config ''imu'' 4 2) = Inr (construct ''imu'' (IntTok 4) (IntTok 2)) \<and>
   map (\<lambda>b. (buf_name b, elem_count b)) (buffers (construct ''imu'' (IntTok 4) (IntTok 2))) =
     [(''kalman_filter_imu_A_buffer'', Some 16),
      (''kalman_filter_imu_P_buffer'', Some 16),
      (''kalman_filter_imu_x_buffer'', Some 4),
      (''kalman_filter_imu_B_buffer'', Some 8),
      (''kalman_filter_imu_Q_buffer'', Some 4),
      (''kalman_filter_imu_u_buffer'', Some 4)] \<and>
   count_of (construct ''imu'' (IntTok 4) (IntTok 2)) (KALMAN_BUFFER_NAME ''imu'' ''u'')
     = Some 4"
  by (simp add: generate_config has_inputs_nonneg construct_def count_of_def
      buffer_named_def declare_buffers_def declare_buffer_def elem_count_def name_defs
      c_constant_def)

section \<open>Symbol families\<close>

lemma symbols_form:
  assumes "x \<in> set (symbols (construct nm ns ni))"
  shows "x = ''kalman_filter_'' @ nm \<or>
         (\<exists>s \<in> set tag_suffixes. x = ''kalman_filter_'' @ nm @ s)"
  using assms
  by (auto simp: symbols_construct name_defs tag_suffixes_def split: if_splits)

text \<open>No appended tag ends in another one: read from the end, two tags differ.\<close>

lemma suffix_clash:
  assumes "s \<in> set tag_suffixes" "t \<in> set tag_suffixes" "n @ s = m @ t"
  shows "n = m"
proof -
  from assms(3) have "rev (n @ s) = rev (m @ t)" by simp
  then have r: "rev s @ rev n = rev t @ rev m" by simp
  from assms(1,2) r have "rev n = rev m"
    unfolding tag_suffixes_def by auto
  then show ?thesis by simp
qed

text \<open>
  Two instances with distinct names share no identifier unless one name is the other
  one followed by one of the appended tags.
\<close>

lemma families_disjoint_unless_extended:
  assumes names: "KALMAN_NAME m1 = Some n1" "KALMAN_NAME m2 = Some n2"
    and distinct: "n1 \<noteq> n2"
    and no_ext: "n2 \<notin> set (extended_names n1)" "n1 \<notin> set (extended_names n2)"
  shows "set (declared (generate m1)) \<inter> set (declared (generate m2)) = {}"
proof (rule ccontr)
  assume "set (declared (generate m1)) \<inter> set (declared (generate m2)) \<noteq> {}"
  then obtain x where x1: "x \<in> set (declared (generate m1))"
    and x2: "x \<in> set (declared (generate m2))" by blast
  from x1 obtain o1 where g1: "generate m1 = Inr o1" and s1: "x \<in> set (symbols o1)"
    by (cases "generate m1") (auto simp: declared_def)
  from x2 obtain o2 where g2: "generate m2 = Inr o2" and s2: "x \<in> set (symbols o2)"
    by (cases "generate m2") (auto simp: declared_def)
  from g1 names(1) obtain ns1 ni1 where o1: "o1 = construct n1 ns1 ni1"
    by (auto elim: generate_Inr)
  from g2 names(2) obtain ns2 ni2 where o2: "o2 = construct n2 ns2 ni2"
    by (auto elim: generate_Inr)
  from s1 o1 have f1: "x = ''kalman_filter_'' @ n1 \<or>
      (\<exists>s \<in> set tag_suffixes. x = ''kalman_filter_'' @ n1 @ s)"
    using symbols_form by blast
  from s2 o2 have f2: "x = ''kalman_filter_'' @ n2 \<or>
      (\<exists>s \<in> set tag_suffixes. x = ''kalman_filter_'' @ n2 @ s)"
    using symbols_form by blast
  from f1 f2 show False
  proof (elim disjE bexE)
    assume "x = ''kalman_filter_'' @ n1" "x = ''kalman_filter_'' @ n2"
    with distinct show False by simp
  next
    fix s assume "x = ''kalman_filter_'' @ n1" "s \<in> set tag_suffixes"
      "x = ''kalman_filter_'' @ n2 @ s"
    with no_ext show False by (auto simp: extended_names_def)
  next
    fix s assume "s \<in> set tag_suffixes" "x = ''kalman_filter_'' @ n1 @ s"
      "x = ''kalman_filter_'' @ n2"
    with no_ext show False by (auto simp: extended_names_def)
  next
    fix s t assume st: "s \<in> set tag_suffixes" "t \<in> set tag_suffixes"
      and "x = ''kalman_filter_'' @ n1 @ s" "x = ''kalman_filter_'' @ n2 @ t"
    then have "n1 @ s = n2 @ t" by simp
    with st have "n1 = n2" by (rule suffix_clash)
    with distinct show False by simp
  qed
qed

text \<open>A name that does not embed the separator extends no name by a tag.\<close>

lemma separator_free_not_extended:
  assumes "CHR ''_'' \<notin> set n"
  shows "n \<notin> set (extended_names m)"
  using assms by (auto simp: extended_names_def tag_suffixes_def)

text \<open>
  The precondition is needed: the structure of an instance carries the bare base name,
  so the instance named \<^verbatim>\<open>foo_init\<close> declares its structure under the name of the
  initialization function of the instance named \<^verbatim>\<open>foo\<close>.
\<close>

lemma embedded_separator_collides:
  "''foo'' \<noteq> ''foo_init'' \<and>
   ''kalman_filter_foo_init'' \<in> set (declared (generate (config ''foo'' 4 0))) \<inter>
                                  set (declared (generate (config ''foo_init'' 4 0)))"
  by (simp add: generate_config has_inputs_nonneg declared_def symbols_construct name_defs)

text \<open>
  C6. Under the precondition the specification documents for names, that a name does
  not embed the separator \<^verbatim>\<open>_\<close>, two instances with distinct names share no
  identifier: no buffer, structure or initialization function of the one is named as
  any of the other.
\<close>

theorem families_disjoint:
  assumes names: "KALMAN_NAME m1 = Some n1" "KALMAN_NAME m2 = Some n2"
    and distinct: "n1 \<noteq> n2"
    and no_sep: "CHR ''_'' \<notin> set n1" "CHR ''_'' \<notin> set n2"
  shows "set (declared (generate m1)) \<inter> set (declared (generate m2)) = {}"
proof -
  from no_sep have "n2 \<notin> set (extended_names n1)" "n1 \<notin> set (extended_names n2)"
    by (simp_all add: separator_free_not_extended)
  with names distinct show ?thesis by (rule families_disjoint_unless_extended)
qed

text \<open>
  The instances \<^verbatim>\<open>alpha\<close> (four states, two inputs: eight identifiers) and \<^verbatim>\<open>beta\<close>
  (three states, no input: five identifiers) of the specification.
\<close>

theorem families_disjoint_witness:
  "KALMAN_NAME (config ''alpha'' 4 2) = Some ''alpha'' \<and>
   KALMAN_NAME (config ''beta'' 3 0) = Some ''beta'' \<and>
   ''alpha'' \<noteq> ''beta'' \<and>
   CHR ''_'' \<notin> set ''alpha'' \<and> CHR ''_'' \<notin> set ''beta'' \<and>
   set (declared (generate (config ''alpha'' 4 2))) \<inter>
   set (declared (generate (config ''beta'' 3 0))) = {} \<and>
   length (declared (generate (config ''alpha'' 4 2))) = 8 \<and>
   length (declared (generate (config ''beta'' 3 0))) = 5"
proof -
  have a: "KALMAN_NAME (config ''alpha'' 4 2) = Some ''alpha''" by (simp add: config_def)
  have b: "KALMAN_NAME (config ''beta'' 3 0) = Some ''beta''" by (simp add: config_def)
  have d: "''alpha'' \<noteq> ''beta''" by simp
  have e: "CHR ''_'' \<notin> set ''alpha''" by simp
  have f: "CHR ''_'' \<notin> set ''beta''" by simp
  have l1: "length (declared (generate (config ''alpha'' 4 2))) = 8"
    by (simp add: generate_config has_inputs_nonneg declared_def symbols_construct)
  have l2: "length (declared (generate (config ''beta'' 3 0))) = 5"
    by (simp add: generate_config has_inputs_nonneg declared_def symbols_construct)
  from families_disjoint [OF a b d e f] a b d e f l1 l2 show ?thesis by blast
qed

section \<open>Rejected configurations\<close>

text \<open>
  C2, as the specification states it: every number of states that is at most zero and
  every negative number of inputs is rejected before anything is declared. A condition
  computes in \<^verbatim>\<open>intmax_t\<close> and \<^verbatim>\<open>uintmax_t\<close>: in \<open>-9223372036854775808\<close> the constant does
  not fit \<^verbatim>\<open>intmax_t\<close>, so it is unsigned, its negation is the unsigned \<open>2\<^sup>6\<^sup>3\<close>, and
  neither \<^verbatim>\<open><= 0\<close> nor \<^verbatim>\<open>< 0\<close> holds. With this number as either dimension no
  \<^verbatim>\<open>#error\<close> is reached and the header declares its buffers.
\<close>

theorem least_intmax_not_rejected:
  "(- 9223372036854775808 :: int) \<le> 0 \<and>
   generate (config ''imu'' (- 9223372036854775808) 0) =
     Inr (construct ''imu'' (IntTok (- 9223372036854775808)) (IntTok 0)) \<and>
   declared (generate (config ''imu'' (- 9223372036854775808) 0)) =
     [''kalman_filter_imu_A_buffer'', ''kalman_filter_imu_P_buffer'',
      ''kalman_filter_imu_x_buffer'', ''kalman_filter_imu'', ''kalman_filter_imu_init''] \<and>
   (- 9223372036854775808 :: int) < 0 \<and>
   generate (config ''imu'' 4 (- 9223372036854775808)) =
     Inr (construct ''imu'' (IntTok 4) (IntTok (- 9223372036854775808)))"
  by (simp add: generate_def check_defs config_def pp_value_def pp_constant_def
      declared_def symbols_construct has_inputs_def name_defs)

text \<open>
  C2, amended: whenever the number of states is at most zero or the number of inputs
  is negative, and the offending number is greater than \<open>-2\<^sup>6\<^sup>3\<close>, the translation
  stops. The checks stand before every dimension macro and every declaration, so
  nothing is declared: no buffer, no structure, no initialization function.
\<close>

theorem invalid_dimension_rejected:
  assumes "(\<exists>n. KALMAN_NUM_STATES m = Some (IntTok n) \<and> - (2 ^ 63) < n \<and> n \<le> 0) \<or>
           (\<exists>n. KALMAN_NUM_INPUTS m = Some (IntTok n) \<and> - (2 ^ 63) < n \<and> n < 0)"
  shows "(\<exists>e. generate m = Inl e) \<and> declared (generate m) = []"
proof -
  from assms have "\<exists>e. generate m = Inl e"
  proof
    assume "\<exists>n. KALMAN_NUM_STATES m = Some (IntTok n) \<and> - (2 ^ 63) < n \<and> n \<le> 0"
    then obtain n where n: "KALMAN_NUM_STATES m = Some (IntTok n)" "- (2 ^ 63) < n" "n \<le> 0"
      by blast
    then have "pp_value (IntTok n) = Some n" by (simp add: pp_value_in_range)
    with n show ?thesis
      by (auto simp: generate_def check_defs split: option.splits)
  next
    assume "\<exists>n. KALMAN_NUM_INPUTS m = Some (IntTok n) \<and> - (2 ^ 63) < n \<and> n < 0"
    then obtain n where n: "KALMAN_NUM_INPUTS m = Some (IntTok n)" "- (2 ^ 63) < n" "n < 0"
      by blast
    then have "pp_value (IntTok n) = Some n" by (simp add: pp_value_in_range)
    with n show ?thesis
      by (auto simp: generate_def check_defs split: option.splits)
  qed
  then show ?thesis by (auto simp: declared_def)
qed

text \<open>Zero states, and a negative number of inputs.\<close>

theorem invalid_dimension_rejected_witness:
  "KALMAN_NUM_STATES (config ''imu'' 0 2) = Some (IntTok 0) \<and>
   - (2 ^ 63) < (0::int) \<and> (0::int) \<le> 0 \<and>
   generate (config ''imu'' 0 2) = Inl (ErrorDirective NumStatesNotPositive) \<and>
   KALMAN_NUM_INPUTS (config ''imu'' 4 (- 1)) = Some (IntTok (- 1)) \<and>
   - (2 ^ 63) < (- 1 :: int) \<and> (- 1 :: int) < 0 \<and>
   generate (config ''imu'' 4 (- 1)) = Inl (ErrorDirective NumInputsNegative) \<and>
   declared (generate (config ''imu'' 0 2)) = [] \<and>
   declared (generate (config ''imu'' 4 (- 1))) = []"
proof -
  have s: "KALMAN_NUM_STATES (config ''imu'' 0 2) = Some (IntTok 0)"
    and i: "KALMAN_NUM_INPUTS (config ''imu'' 4 (- 1)) = Some (IntTok (- 1))"
    by (simp_all add: config_def)
  have r: "- (2 ^ 63) < (0::int)" "(0::int) \<le> 0" "- (2 ^ 63) < (- 1 :: int)"
    "(- 1 :: int) < 0"
    by simp_all
  from s r have h1:
    "(\<exists>n. KALMAN_NUM_STATES (config ''imu'' 0 2) = Some (IntTok n) \<and> - (2 ^ 63) < n \<and> n \<le> 0) \<or>
     (\<exists>n. KALMAN_NUM_INPUTS (config ''imu'' 0 2) = Some (IntTok n) \<and> - (2 ^ 63) < n \<and> n < 0)"
    by blast
  from i r have h2:
    "(\<exists>n. KALMAN_NUM_STATES (config ''imu'' 4 (- 1)) = Some (IntTok n) \<and>
          - (2 ^ 63) < n \<and> n \<le> 0) \<or>
     (\<exists>n. KALMAN_NUM_INPUTS (config ''imu'' 4 (- 1)) = Some (IntTok n) \<and>
          - (2 ^ 63) < n \<and> n < 0)"
    by blast
  have e1: "generate (config ''imu'' 0 2) = Inl (ErrorDirective NumStatesNotPositive)"
    by (simp add: generate_def config_def check_defs pp_value_in_range)
  have e2: "generate (config ''imu'' 4 (- 1)) = Inl (ErrorDirective NumInputsNegative)"
    by (simp add: generate_def config_def check_defs pp_value_in_range)
  from invalid_dimension_rejected [OF h1] invalid_dimension_rejected [OF h2] s i r e1 e2
  show ?thesis by blast
qed

text \<open>
  C3. When one of the three macros is not defined before the header is included, the
  translation stops with an \<^verbatim>\<open>#error\<close> and nothing is declared.
\<close>

theorem missing_parameter_rejected:
  assumes "KALMAN_NAME m = None \<or> KALMAN_NUM_STATES m = None \<or> KALMAN_NUM_INPUTS m = None"
  shows "(\<exists>e. generate m = Inl e) \<and> declared (generate m) = []"
  using assms
  by (auto simp: generate_def check_defs declared_def split: option.splits)

text \<open>The number of inputs left undefined.\<close>

theorem missing_parameter_rejected_witness:
  "(KALMAN_NAME (config ''imu'' 4 2\<lparr>KALMAN_NUM_INPUTS := None\<rparr>) = None \<or>
    KALMAN_NUM_STATES (config ''imu'' 4 2\<lparr>KALMAN_NUM_INPUTS := None\<rparr>) = None \<or>
    KALMAN_NUM_INPUTS (config ''imu'' 4 2\<lparr>KALMAN_NUM_INPUTS := None\<rparr>) = None) \<and>
   generate (config ''imu'' 4 2\<lparr>KALMAN_NUM_INPUTS := None\<rparr>) =
     Inl (ErrorDirective NumInputsUndefined) \<and>
   declared (generate (config ''imu'' 4 2\<lparr>KALMAN_NUM_INPUTS := None\<rparr>)) = []"
proof -
  have h: "KALMAN_NAME (config ''imu'' 4 2\<lparr>KALMAN_NUM_INPUTS := None\<rparr>) = None \<or>
    KALMAN_NUM_STATES (config ''imu'' 4 2\<lparr>KALMAN_NUM_INPUTS := None\<rparr>) = None \<or>
    KALMAN_NUM_INPUTS (config ''imu'' 4 2\<lparr>KALMAN_NUM_INPUTS := None\<rparr>) = None"
    by simp
  have e: "generate (config ''imu'' 4 2\<lparr>KALMAN_NUM_INPUTS := None\<rparr>) =
      Inl (ErrorDirective NumInputsUndefined)"
    by (simp add: generate_def config_def check_defs pp_value_in_range)
  from missing_parameter_rejected [OF h] h e show ?thesis by blast
qed

text \<open>
  C8. When the header is rejected for a dimension, the text of the \<^verbatim>\<open>#error\<close> is the
  name of the macro at fault followed by the constraint it has to meet: the number of
  states when the condition finds it at most zero, the number of inputs otherwise.
\<close>

theorem dimension_error_message:
  assumes "KALMAN_NAME m = Some nm" "KALMAN_NUM_STATES m = Some ns" "pp_value ns = Some v"
    and "v \<le> 0 \<or> (KALMAN_NUM_INPUTS m = Some ni \<and> pp_value ni = Some w \<and> w < 0)"
  shows "\<exists>e. generate m = Inl (ErrorDirective e) \<and>
     (if v \<le> 0
      then e = NumStatesNotPositive \<and>
           error_message e = ''KALMAN_NUM_STATES'' @ '' must be a positive integer''
      else e = NumInputsNegative \<and>
           error_message e = ''KALMAN_NUM_INPUTS''
             @ '' must be a positive integer or zero if no inputs are used'')"
  using assms by (auto simp: generate_def check_defs)

text \<open>Zero states, and a negative number of inputs.\<close>

theorem dimension_error_message_witness:
  "KALMAN_NAME (config ''imu'' 0 2) = Some ''imu'' \<and>
   KALMAN_NUM_STATES (config ''imu'' 0 2) = Some (IntTok 0) \<and>
   pp_value (IntTok 0) = Some 0 \<and> (0::int) \<le> 0 \<and>
   generate (config ''imu'' 0 2) = Inl (ErrorDirective NumStatesNotPositive) \<and>
   KALMAN_NAME (config ''imu'' 4 (- 1)) = Some ''imu'' \<and>
   KALMAN_NUM_STATES (config ''imu'' 4 (- 1)) = Some (IntTok 4) \<and>
   pp_value (IntTok 4) = Some 4 \<and>
   KALMAN_NUM_INPUTS (config ''imu'' 4 (- 1)) = Some (IntTok (- 1)) \<and>
   pp_value (IntTok (- 1)) = Some (- 1) \<and> (- 1 :: int) < 0 \<and>
   generate (config ''imu'' 4 (- 1)) = Inl (ErrorDirective NumInputsNegative)"
proof -
  have a: "KALMAN_NAME (config ''imu'' 0 2) = Some ''imu''"
    and b: "KALMAN_NUM_STATES (config ''imu'' 0 2) = Some (IntTok 0)"
    and c: "pp_value (IntTok 0) = Some 0"
    and d: "(0::int) \<le> 0"
    by (simp_all add: config_def pp_value_in_range)
  have a': "KALMAN_NAME (config ''imu'' 4 (- 1)) = Some ''imu''"
    and b': "KALMAN_NUM_STATES (config ''imu'' 4 (- 1)) = Some (IntTok 4)"
    and c': "pp_value (IntTok 4) = Some 4"
    and d': "KALMAN_NUM_INPUTS (config ''imu'' 4 (- 1)) = Some (IntTok (- 1))"
    and e': "pp_value (IntTok (- 1)) = Some (- 1)"
    and f': "(- 1 :: int) < 0"
    by (simp_all add: config_def pp_value_in_range)
  from d have h: "(0::int) \<le> 0 \<or>
      (KALMAN_NUM_INPUTS (config ''imu'' 0 2) = Some (IntTok 2) \<and>
       pp_value (IntTok 2) = Some 2 \<and> (2::int) < 0)"
    by simp
  from d' e' f' have h': "(4::int) \<le> 0 \<or>
      (KALMAN_NUM_INPUTS (config ''imu'' 4 (- 1)) = Some (IntTok (- 1)) \<and>
       pp_value (IntTok (- 1)) = Some (- 1) \<and> (- 1 :: int) < 0)"
    by simp
  from dimension_error_message [OF a b c h]
  have e: "generate (config ''imu'' 0 2) = Inl (ErrorDirective NumStatesNotPositive)" by simp
  from dimension_error_message [OF a' b' c' h']
  have g: "generate (config ''imu'' 4 (- 1)) = Inl (ErrorDirective NumInputsNegative)" by simp
  from a b c d e a' b' c' d' e' f' g show ?thesis by blast
qed

section \<open>Accepted configurations\<close>

text \<open>
  C4. With no input, only \<open>A\<close>, \<open>P\<close> and \<open>x\<close> are declared; the macros for \<open>B\<close>, \<open>Q\<close>
  and \<open>u\<close> expand to the null pointer, and the initialization function passes it in
  their three places.
\<close>

theorem zero_inputs_sentinel:
  assumes "KALMAN_NAME m = Some nm" "KALMAN_NUM_STATES m = Some ns"
    "pp_value ns = Some v" "0 < v"
    "KALMAN_NUM_INPUTS m = Some ni" "pp_value ni = Some 0"
  shows "\<exists>out. generate m = Inr out \<and>
     map buf_name (buffers out) =
       [KALMAN_BUFFER_NAME nm ''A'', KALMAN_BUFFER_NAME nm ''P'', KALMAN_BUFFER_NAME nm ''x''] \<and>
     KALMAN_BUFFER_B nm ni = NullPtr \<and> KALMAN_BUFFER_Q nm ni = NullPtr \<and>
     KALMAN_BUFFER_u nm ni = NullPtr \<and>
     fn_body (init_fn out) =
       [Call ''kalman_filter_initialize''
          [AddrOf (KALMAN_STRUCT_NAME nm), Tok ns, Tok ni,
           Buf (Storage (KALMAN_BUFFER_NAME nm ''A'')),
           Buf (Storage (KALMAN_BUFFER_NAME nm ''x'')),
           Buf NullPtr, Buf NullPtr,
           Buf (Storage (KALMAN_BUFFER_NAME nm ''P'')),
           Buf NullPtr]]"
proof -
  from assms have g: "generate m = Inr (construct nm ns ni)"
    by (simp add: generate_ok)
  from assms(6) have z: "\<not> has_inputs ni" by (simp add: has_inputs_def)
  from g z show ?thesis
    by (simp add: construct_def declare_buffers_def declare_buffer_def
        init_function_def buffer_defs)
qed

text \<open>The instance \<^verbatim>\<open>imu\<close> with four states and no input.\<close>

theorem zero_inputs_sentinel_witness:
  "generate (config ''imu'' 4 0) = Inr (construct ''imu'' (IntTok 4) (IntTok 0)) \<and>
   map buf_name (buffers (construct ''imu'' (IntTok 4) (IntTok 0))) =
     [''kalman_filter_imu_A_buffer'', ''kalman_filter_imu_P_buffer'',
      ''kalman_filter_imu_x_buffer''] \<and>
   fn_body (init_fn (construct ''imu'' (IntTok 4) (IntTok 0))) =
     [Call ''kalman_filter_initialize''
        [AddrOf ''kalman_filter_imu'', Tok (IntTok 4), Tok (IntTok 0),
         Buf (Storage ''kalman_filter_imu_A_buffer''),
         Buf (Storage ''kalman_filter_imu_x_buffer''),
         Buf NullPtr, Buf NullPtr,
         Buf (Storage ''kalman_filter_imu_P_buffer''),
         Buf NullPtr]]"
proof -
  have a: "KALMAN_NAME (config ''imu'' 4 0) = Some ''imu''" by (simp add: config_def)
  have b: "KALMAN_NUM_STATES (config ''imu'' 4 0) = Some (IntTok 4)" by (simp add: config_def)
  have c: "pp_value (IntTok 4) = Some 4" by (simp add: pp_value_in_range)
  have c': "(0::int) < 4" by simp
  have d: "KALMAN_NUM_INPUTS (config ''imu'' 4 0) = Some (IntTok 0)" by (simp add: config_def)
  have e: "pp_value (IntTok 0) = Some 0" by (simp add: pp_value_in_range)
  have g: "generate (config ''imu'' 4 0) = Inr (construct ''imu'' (IntTok 4) (IntTok 0))"
    by (simp add: generate_config)
  from zero_inputs_sentinel [OF a b c c' d e] g show ?thesis
    by (simp add: name_defs)
qed

text \<open>
  C7. The generated function has no parameter, and its body is the single call of
  \<^verbatim>\<open>kalman_filter_initialize\<close> with the address of the structure of this instance, the
  two dimensions as they were given, and the buffers of \<open>A\<close>, \<open>x\<close>, \<open>B\<close>, \<open>u\<close>, \<open>P\<close>, \<open>Q\<close>
  of this instance, in this order: for each the array of that name, and for \<open>B\<close>, \<open>u\<close>,
  \<open>Q\<close> the null pointer when the instance has no input. The arrays passed are the
  arrays the header has declared, and the address passed is that of the structure it
  has declared.
\<close>

theorem init_delegates:
  assumes "generate m = Inr out"
  shows "\<exists>nm ns ni w.
     KALMAN_NAME m = Some nm \<and> KALMAN_NUM_STATES m = Some ns \<and>
     KALMAN_NUM_INPUTS m = Some ni \<and> pp_value ni = Some w \<and>
     struct_decl out = ''kalman_filter_'' @ nm \<and>
     fn_name (init_fn out) = ''kalman_filter_'' @ nm @ ''_init'' \<and>
     fn_params (init_fn out) = [] \<and>
     fn_body (init_fn out) =
       [Call ''kalman_filter_initialize''
          [AddrOf (''kalman_filter_'' @ nm), Tok ns, Tok ni,
           Buf (Storage (''kalman_filter_'' @ nm @ ''_A_buffer'')),
           Buf (Storage (''kalman_filter_'' @ nm @ ''_x_buffer'')),
           Buf (if 0 < w then Storage (''kalman_filter_'' @ nm @ ''_B_buffer'') else NullPtr),
           Buf (if 0 < w then Storage (''kalman_filter_'' @ nm @ ''_u_buffer'') else NullPtr),
           Buf (Storage (''kalman_filter_'' @ nm @ ''_P_buffer'')),
           Buf (if 0 < w then Storage (''kalman_filter_'' @ nm @ ''_Q_buffer'') else NullPtr)]] \<and>
     set (concat (map passed_storage (fn_body (init_fn out)))) =
       set (map buf_name (buffers out))"
proof -
  from assms obtain nm ns ni v w where p: "KALMAN_NAME m = Some nm"
    "KALMAN_NUM_STATES m = Some ns" "KALMAN_NUM_INPUTS m = Some ni"
    and w: "pp_value ni = Some w"
    and out: "out = construct nm ns ni"
    by (rule generate_Inr)
  from w have h: "has_inputs ni \<longleftrightarrow> 0 < w" by (simp add: has_inputs_def)
  from out have s: "struct_decl out = ''kalman_filter_'' @ nm"
    by (simp add: construct_def name_defs)
  from out have n: "fn_name (init_fn out) = ''kalman_filter_'' @ nm @ ''_init''"
    and a: "fn_params (init_fn out) = []"
    by (simp_all add: construct_def init_function_def name_defs)
  from out h have b: "fn_body (init_fn out) =
       [Call ''kalman_filter_initialize''
          [AddrOf (''kalman_filter_'' @ nm), Tok ns, Tok ni,
           Buf (Storage (''kalman_filter_'' @ nm @ ''_A_buffer'')),
           Buf (Storage (''kalman_filter_'' @ nm @ ''_x_buffer'')),
           Buf (if 0 < w then Storage (''kalman_filter_'' @ nm @ ''_B_buffer'') else NullPtr),
           Buf (if 0 < w then Storage (''kalman_filter_'' @ nm @ ''_u_buffer'') else NullPtr),
           Buf (Storage (''kalman_filter_'' @ nm @ ''_P_buffer'')),
           Buf (if 0 < w then Storage (''kalman_filter_'' @ nm @ ''_Q_buffer'') else NullPtr)]]"
    by (simp add: construct_def init_function_def buffer_defs name_defs)
  from out h have d: "map buf_name (buffers out) =
      [''kalman_filter_'' @ nm @ ''_A_buffer'', ''kalman_filter_'' @ nm @ ''_P_buffer'',
       ''kalman_filter_'' @ nm @ ''_x_buffer'']
      @ (if 0 < w
         then [''kalman_filter_'' @ nm @ ''_B_buffer'', ''kalman_filter_'' @ nm @ ''_Q_buffer'',
               ''kalman_filter_'' @ nm @ ''_u_buffer'']
         else [])"
    by (simp add: construct_def declare_buffers_def declare_buffer_def name_defs)
  have c: "set (concat (map passed_storage (fn_body (init_fn out)))) =
       set (map buf_name (buffers out))"
    unfolding b d by auto
  from p w s n a b c show ?thesis by blast
qed

text \<open>
  The instance \<^verbatim>\<open>imu\<close> with four states and two inputs, and the instance \<^verbatim>\<open>gyro\<close>
  with three states and no input.
\<close>

theorem init_delegates_witness:
  "generate (config ''imu'' 4 2) = Inr (construct ''imu'' (IntTok 4) (IntTok 2)) \<and>
   fn_name (init_fn (construct ''imu'' (IntTok 4) (IntTok 2))) = ''kalman_filter_imu_init'' \<and>
   fn_params (init_fn (construct ''imu'' (IntTok 4) (IntTok 2))) = [] \<and>
   fn_body (init_fn (construct ''imu'' (IntTok 4) (IntTok 2))) =
     [Call ''kalman_filter_initialize''
        [AddrOf ''kalman_filter_imu'', Tok (IntTok 4), Tok (IntTok 2),
         Buf (Storage ''kalman_filter_imu_A_buffer''),
         Buf (Storage ''kalman_filter_imu_x_buffer''),
         Buf (Storage ''kalman_filter_imu_B_buffer''),
         Buf (Storage ''kalman_filter_imu_u_buffer''),
         Buf (Storage ''kalman_filter_imu_P_buffer''),
         Buf (Storage ''kalman_filter_imu_Q_buffer'')]] \<and>
   generate (config ''gyro'' 3 0) = Inr (construct ''gyro'' (IntTok 3) (IntTok 0)) \<and>
   fn_body (init_fn (construct ''gyro'' (IntTok 3) (IntTok 0))) =
     [Call ''kalman_filter_initialize''
        [AddrOf ''kalman_filter_gyro'', Tok (IntTok 3), Tok (IntTok 0),
         Buf (Storage ''kalman_filter_gyro_A_buffer''),
         Buf (Storage ''kalman_filter_gyro_x_buffer''),
         Buf NullPtr, Buf NullPtr,
         Buf (Storage ''kalman_filter_gyro_P_buffer''),
         Buf NullPtr]]"
proof -
  have g: "generate (config ''imu'' 4 2) = Inr (construct ''imu'' (IntTok 4) (IntTok 2))"
    and g': "generate (config ''gyro'' 3 0) = Inr (construct ''gyro'' (IntTok 3) (IntTok 0))"
    by (simp_all add: generate_config)
  have w: "pp_value (IntTok 2) = Some 2" "pp_value (IntTok 0) = Some 0"
    by (simp_all add: pp_value_in_range)
  from init_delegates [OF g] init_delegates [OF g'] g g' w show ?thesis
    by (auto simp: config_def)
qed

text \<open>
  C9, as the specification states it: every dimension that is not an integer counts
  as \<open>0\<close>, is rejected with the message of the positive integer as the number of states
  and accepted as the number of inputs. A floating constant is not an integer either,
  and it makes the condition ill-formed: as the number of states it stops the
  translation without the message of the header, and as the number of inputs it does
  not pass.
\<close>

theorem floating_dimension_ill_formed:
  "pp_value (OtherTok ''2.5'') = None \<and>
   generate \<lparr>KALMAN_NAME = Some ''imu'', KALMAN_NUM_STATES = Some (OtherTok ''2.5''),
             KALMAN_NUM_INPUTS = Some (IntTok 0)\<rparr> = Inl IllFormedCondition \<and>
   generate \<lparr>KALMAN_NAME = Some ''imu'', KALMAN_NUM_STATES = Some (IntTok 4),
             KALMAN_NUM_INPUTS = Some (OtherTok ''2.5'')\<rparr> = Inl IllFormedCondition"
  by (simp add: generate_def check_defs pp_value_OtherTok pp_value_in_range)

text \<open>
  C9, amended: a dimension given as an identifier that is no macro counts as \<open>0\<close> in
  the comparisons. As the number of states it is rejected with the message of the
  positive integer. As the number of inputs it passes the checks and is not reported:
  the header takes the branch of no input, declares no storage for \<open>B\<close>, \<open>Q\<close> and \<open>u\<close>
  and passes the null pointer in their places, while the call still passes the
  identifier itself as the number of inputs, which there denotes what the including
  file declares it to be, and nothing when it is not declared.
\<close>

theorem identifier_dimensions:
  assumes "KALMAN_NAME m1 = Some nm1" "KALMAN_NUM_STATES m1 = Some (IdentTok s1)"
    and "KALMAN_NAME m2 = Some nm2" "KALMAN_NUM_STATES m2 = Some ns"
      "pp_value ns = Some v" "0 < v"
      "KALMAN_NUM_INPUTS m2 = Some (IdentTok s2)"
  shows "pp_value (IdentTok s1) = Some 0 \<and>
     generate m1 = Inl (ErrorDirective NumStatesNotPositive) \<and>
     error_message NumStatesNotPositive = ''KALMAN_NUM_STATES must be a positive integer'' \<and>
     pp_value (IdentTok s2) = Some 0 \<and>
     generate m2 = Inr (construct nm2 ns (IdentTok s2)) \<and>
     map buf_name (buffers (construct nm2 ns (IdentTok s2))) =
       [''kalman_filter_'' @ nm2 @ ''_A_buffer'', ''kalman_filter_'' @ nm2 @ ''_P_buffer'',
        ''kalman_filter_'' @ nm2 @ ''_x_buffer''] \<and>
     KALMAN_BUFFER_B nm2 (IdentTok s2) = NullPtr \<and>
     KALMAN_BUFFER_Q nm2 (IdentTok s2) = NullPtr \<and>
     KALMAN_BUFFER_u nm2 (IdentTok s2) = NullPtr \<and>
     fn_body (init_fn (construct nm2 ns (IdentTok s2))) =
       [Call ''kalman_filter_initialize''
          [AddrOf (''kalman_filter_'' @ nm2), Tok ns, Tok (IdentTok s2),
           Buf (Storage (''kalman_filter_'' @ nm2 @ ''_A_buffer'')),
           Buf (Storage (''kalman_filter_'' @ nm2 @ ''_x_buffer'')),
           Buf NullPtr, Buf NullPtr,
           Buf (Storage (''kalman_filter_'' @ nm2 @ ''_P_buffer'')),
           Buf NullPtr]] \<and>
     denotes scope (IdentTok s2) = scope s2"
proof -
  from assms(1,2) have r: "generate m1 = Inl (ErrorDirective NumStatesNotPositive)"
    by (simp add: generate_def check_defs pp_value_IdentTok)
  from assms(3-7) have a: "generate m2 = Inr (construct nm2 ns (IdentTok s2))"
    by (simp add: generate_ok pp_value_IdentTok)
  have z: "\<not> has_inputs (IdentTok s2)"
    by (simp add: has_inputs_def pp_value_IdentTok)
  from z have b: "map buf_name (buffers (construct nm2 ns (IdentTok s2))) =
       [''kalman_filter_'' @ nm2 @ ''_A_buffer'', ''kalman_filter_'' @ nm2 @ ''_P_buffer'',
        ''kalman_filter_'' @ nm2 @ ''_x_buffer'']"
    by (simp add: construct_def declare_buffers_def declare_buffer_def name_defs)
  from z have c: "KALMAN_BUFFER_B nm2 (IdentTok s2) = NullPtr"
    "KALMAN_BUFFER_Q nm2 (IdentTok s2) = NullPtr"
    "KALMAN_BUFFER_u nm2 (IdentTok s2) = NullPtr"
    by (simp_all add: buffer_defs)
  have d: "fn_body (init_fn (construct nm2 ns (IdentTok s2))) =
       [Call ''kalman_filter_initialize''
          [AddrOf (''kalman_filter_'' @ nm2), Tok ns, Tok (IdentTok s2),
           Buf (Storage (''kalman_filter_'' @ nm2 @ ''_A_buffer'')),
           Buf (Storage (''kalman_filter_'' @ nm2 @ ''_x_buffer'')),
           Buf NullPtr, Buf NullPtr,
           Buf (Storage (''kalman_filter_'' @ nm2 @ ''_P_buffer'')),
           Buf NullPtr]]"
    by (simp add: construct_def init_function_def c KALMAN_BUFFER_A_def KALMAN_BUFFER_x_def
        KALMAN_BUFFER_P_def name_defs)
  from r a b c d show ?thesis by (simp add: pp_value_IdentTok)
qed

text \<open>
  The identifiers \<^verbatim>\<open>N_STATES\<close> and \<^verbatim>\<open>N_INPUTS\<close> as dimensions of \<^verbatim>\<open>imu\<close>, in a file that
  declares \<^verbatim>\<open>N_INPUTS\<close> as the constant \<open>2\<close>: the call passes \<open>2\<close> inputs and no buffer
  for them.
\<close>

theorem identifier_dimensions_witness:
  "generate \<lparr>KALMAN_NAME = Some ''imu'', KALMAN_NUM_STATES = Some (IdentTok ''N_STATES''),
             KALMAN_NUM_INPUTS = Some (IntTok 2)\<rparr> =
     Inl (ErrorDirective NumStatesNotPositive) \<and>
   pp_value (IntTok 4) = Some 4 \<and> (0::int) < 4 \<and>
   generate \<lparr>KALMAN_NAME = Some ''imu'', KALMAN_NUM_STATES = Some (IntTok 4),
             KALMAN_NUM_INPUTS = Some (IdentTok ''N_INPUTS'')\<rparr> =
     Inr (construct ''imu'' (IntTok 4) (IdentTok ''N_INPUTS'')) \<and>
   map buf_name (buffers (construct ''imu'' (IntTok 4) (IdentTok ''N_INPUTS''))) =
     [''kalman_filter_imu_A_buffer'', ''kalman_filter_imu_P_buffer'',
      ''kalman_filter_imu_x_buffer''] \<and>
   fn_body (init_fn (construct ''imu'' (IntTok 4) (IdentTok ''N_INPUTS''))) =
     [Call ''kalman_filter_initialize''
        [AddrOf ''kalman_filter_imu'', Tok (IntTok 4), Tok (IdentTok ''N_INPUTS''),
         Buf (Storage ''kalman_filter_imu_A_buffer''),
         Buf (Storage ''kalman_filter_imu_x_buffer''),
         Buf NullPtr, Buf NullPtr,
         Buf (Storage ''kalman_filter_imu_P_buffer''),
         Buf NullPtr]] \<and>
   denotes (\<lambda>s. if s = ''N_INPUTS'' then Some 2 else None) (IdentTok ''N_INPUTS'') = Some 2 \<and>
   denotes (\<lambda>s. None) (IdentTok ''N_INPUTS'') = None"
proof -
  have v: "pp_value (IntTok 4) = Some 4" and p: "(0::int) < 4"
    by (simp_all add: pp_value_in_range)
  have u: "denotes (\<lambda>s. None) (IdentTok ''N_INPUTS'') = None" by simp
  from identifier_dimensions [of
      "\<lparr>KALMAN_NAME = Some ''imu'', KALMAN_NUM_STATES = Some (IdentTok ''N_STATES''),
        KALMAN_NUM_INPUTS = Some (IntTok 2)\<rparr>" "''imu''" "''N_STATES''"
      "\<lparr>KALMAN_NAME = Some ''imu'', KALMAN_NUM_STATES = Some (IntTok 4),
        KALMAN_NUM_INPUTS = Some (IdentTok ''N_INPUTS'')\<rparr>" "''imu''" "IntTok 4" 4
      "''N_INPUTS''" "\<lambda>s. if s = ''N_INPUTS'' then Some 2 else None"] v p u
  show ?thesis by simp
qed




section \<open>The naming scheme\<close>

text \<open>
  C5, as the specification states it: every identifier, the one of the structure
  included, is the prefix, the name, the separator and a tag. The structure of \<^verbatim>\<open>imu\<close>
  is \<^verbatim>\<open>kalman_filter_imu\<close>: it does not even start with prefix, name and separator.
\<close>

theorem struct_name_has_no_tag:
  "KALMAN_STRUCT_NAME ''imu'' = ''kalman_filter_imu'' \<and>
   spec_identifier ''imu'' [] = ''kalman_filter_imu_'' \<and>
   \<not> prefix (spec_identifier ''imu'' []) (KALMAN_STRUCT_NAME ''imu'')"
  by (simp add: name_defs spec_identifier_def name_prefix_def name_separator_def)

text \<open>
  C5, amended: the buffer of an element is the prefix \<^verbatim>\<open>kalman_filter_\<close>, the name,
  the separator \<^verbatim>\<open>_\<close> and the element followed by \<^verbatim>\<open>_buffer\<close>; the initialization
  function is the prefix, the name, the separator and \<^verbatim>\<open>init\<close>; the structure is the
  prefix and the name alone. The identifiers of an instance are a function of its name
  and of whether it has inputs.
\<close>

theorem symbol_scheme:
  "KALMAN_BUFFER_NAME nm el = spec_identifier nm (el @ ''_buffer'') \<and>
   KALMAN_FUNCTION_NAME nm ''init'' = spec_identifier nm ''init'' \<and>
   KALMAN_STRUCT_NAME nm = name_prefix @ nm \<and>
   symbols (construct nm ns ni) =
     map (spec_identifier nm)
       ([''A_buffer'', ''P_buffer'', ''x_buffer'']
        @ (if has_inputs ni then [''B_buffer'', ''Q_buffer'', ''u_buffer''] else []))
     @ [name_prefix @ nm, spec_identifier nm ''init'']"
  by (simp add: symbols_construct name_defs spec_identifier_def name_prefix_def
      name_separator_def)

end
